theory Spec2Isabelle
  imports Complex_Main
begin

section \<open>Brachistochrone simulation: path solver and bead sampler of app.py\<close>

text \<open>
  The program works on Python floats. They are embedded as the real numbers, with the
  one non-finite value the program creates itself (\<^verbatim>\<open>float('inf')\<close> for the radius)
  as a constructor of its own. Every division and square root of the source is a call
  that can raise, as in Python. The library root finder \<^verbatim>\<open>scipy.optimize.fsolve\<close>
  is not part of the program: it is a parameter of the solver, which either raises or
  returns a number.
\<close>

subsection \<open>Values, exceptions and library calls\<close>

type_synonym point = "real \<times> real"

datatype py_exc = RuntimeError | ValueError | ZeroDivisionError | OtherException

datatype pyfloat = Fin real | PosInf

type_synonym root_finder = "(real \<Rightarrow> real) \<Rightarrow> real \<Rightarrow> py_exc + real"

definition G :: real where
  "G = 9.81 * 100"

definition bind_exc :: "py_exc + 'a \<Rightarrow> ('a \<Rightarrow> py_exc + 'b) \<Rightarrow> py_exc + 'b" where
  "bind_exc m f = (case m of Inl e \<Rightarrow> Inl e | Inr v \<Rightarrow> f v)"

definition py_div :: "real \<Rightarrow> real \<Rightarrow> py_exc + real" where
  "py_div a b = (if b = 0 then Inl ZeroDivisionError else Inr (a / b))"

definition math_sqrt :: "real \<Rightarrow> py_exc + real" where
  "math_sqrt x = (if x < 0 then Inl ValueError else Inr (sqrt x))"

definition np_sign :: "real \<Rightarrow> real" where
  "np_sign x = (if x < 0 then - 1 else if x = 0 then 0 else 1)"

text \<open>\<^verbatim>\<open>np.linspace(start, stop, num)\<close>: \<open>num\<close> values, the end point included.\<close>

definition np_linspace :: "real \<Rightarrow> real \<Rightarrow> nat \<Rightarrow> real list" where
  "np_linspace start stop num =
     map (\<lambda>i. start + real i * ((stop - start) / real (num - 1))) [0..<num]"

subsection \<open>calculate_paths\<close>

record path_solution =
  key_A :: point
  key_B :: point
  key_dx :: real
  key_dy :: real
  line_L :: real
  line_a :: real
  line_t :: real
  line_points :: "point list"
  cycloid_r :: pyfloat
  cycloid_theta_b :: real
  cycloid_t :: real
  cycloid_points :: "point list"

text \<open>The equation handed to the root finder (the lambda of lines 78-81).\<close>

definition cycloid_equation :: "real \<Rightarrow> real \<Rightarrow> real" where
  "cycloid_equation ratio = (\<lambda>th. (th - sin th) - ratio * (1 - cos th))"

text \<open>
  The body of the \<^verbatim>\<open>try\<close> block (lines 78-83): the angle, the radius and the cycloid
  time, or the exception that left the block.
\<close>

definition cycloid_try :: "root_finder \<Rightarrow> real \<Rightarrow> real \<Rightarrow> py_exc + (real \<times> real \<times> real)" where
  "cycloid_try fsolve ratio dy =
     bind_exc (fsolve (cycloid_equation ratio) pi) (\<lambda>theta_b_cycloid.
     bind_exc (py_div dy (1 - cos theta_b_cycloid)) (\<lambda>r_cycloid.
     bind_exc (py_div r_cycloid G) (\<lambda>q.
     bind_exc (math_sqrt q) (\<lambda>s.
       Inr (theta_b_cycloid, r_cycloid, theta_b_cycloid * s)))))"

text \<open>
  The two branches of lines 63-85. \<open>Inr None\<close> is the \<^verbatim>\<open>return None\<close> of the
  \<^verbatim>\<open>except (RuntimeError, ValueError)\<close> clause; any other exception leaves the
  function. The tuple is \<open>(a_line, t_line, r_cycloid, theta_b_cycloid, t_cycloid)\<close>.
\<close>

definition path_times ::
  "root_finder \<Rightarrow> real \<Rightarrow> real \<Rightarrow> real \<Rightarrow>
     py_exc + (real \<times> real \<times> pyfloat \<times> real \<times> real) option" where
  "path_times fsolve dx dy L =
     (if \<bar>dx\<bar> < 1.0 then
        (let a_line = G in
         bind_exc (py_div (2 * L) a_line) (\<lambda>q.
         bind_exc (math_sqrt q) (\<lambda>t_line.
           Inr (Some (a_line, t_line, PosInf, 0, t_line)))))
      else
        bind_exc (py_div (G * dy) L) (\<lambda>a_line.
        bind_exc (py_div (2 * L) a_line) (\<lambda>q.
        bind_exc (math_sqrt q) (\<lambda>t_line.
        bind_exc (py_div \<bar>dx\<bar> dy) (\<lambda>ratio.
          (case cycloid_try fsolve ratio dy of
             Inl e \<Rightarrow> (if e = RuntimeError \<or> e = ValueError then Inr None else Inl e)
           | Inr (theta_b_cycloid, r_cycloid, t_cycloid) \<Rightarrow>
               Inr (Some (a_line, t_line, Fin r_cycloid, theta_b_cycloid, t_cycloid))))))))"

text \<open>Lines 87-97: the two polylines.\<close>

definition sample_cycloid :: "point \<Rightarrow> real \<Rightarrow> real \<Rightarrow> real \<Rightarrow> point list" where
  "sample_cycloid A dx r_cycloid theta_b_cycloid =
     (let direction = np_sign dx;
          thetas = np_linspace 0 theta_b_cycloid 100
      in map (\<lambda>th. (fst A + direction * r_cycloid * (th - sin th),
                     snd A + r_cycloid * (1 - cos th))) thetas)"

definition calculate_paths :: "root_finder \<Rightarrow> point \<Rightarrow> point \<Rightarrow> py_exc + path_solution option" where
  "calculate_paths fsolve A B =
     (let xa = fst A; ya = snd A; xb = fst B; yb = snd B;
          dx = xb - xa;
          dy = yb - ya
      in if dy \<le> 0 then Inr None
         else
           bind_exc (math_sqrt (dx\<^sup>2 + dy\<^sup>2)) (\<lambda>L.
           bind_exc (path_times fsolve dx dy L) (\<lambda>times.
             (case times of
                None \<Rightarrow> Inr None
              | Some (a_line, t_line, r_cycloid, theta_b_cycloid, t_cycloid) \<Rightarrow>
                  (let line_points = [A, B];
                       cycloid_points =
                         (case r_cycloid of
                            PosInf \<Rightarrow> line_points
                          | Fin r \<Rightarrow> sample_cycloid A dx r theta_b_cycloid)
                   in Inr (Some \<lparr> key_A = A, key_B = B, key_dx = dx, key_dy = dy,
                                   line_L = L, line_a = a_line, line_t = t_line,
                                   line_points = line_points, cycloid_r = r_cycloid,
                                   cycloid_theta_b = theta_b_cycloid, cycloid_t = t_cycloid,
                                   cycloid_points = cycloid_points \<rparr>))))))"

subsection \<open>The simulation update of the main loop\<close>

datatype app_state = pick_a | pick_b | simulate | results

record sim_vars =
  state :: app_state
  sim_time :: real
  line_finished :: bool
  cycloid_finished :: bool
  pos_line_world :: point
  pos_cycloid_world :: point

text \<open>Lines 252-257: the variables when a solution has been accepted.\<close>

definition start_simulation :: "point \<Rightarrow> sim_vars" where
  "start_simulation point_a_world =
     \<lparr> state = simulate, sim_time = 0.0, line_finished = False, cycloid_finished = False,
       pos_line_world = point_a_world, pos_cycloid_world = point_a_world \<rparr>"

text \<open>Lines 331-342.\<close>

definition update_line_bead :: "path_solution \<Rightarrow> point \<Rightarrow> point \<Rightarrow> sim_vars \<Rightarrow> py_exc + sim_vars" where
  "update_line_bead sim_data point_a_world point_b_world v =
     (if \<not> line_finished v then
        (let t = line_t sim_data in
         if sim_time v < t then
           (let dist = 0.5 * line_a sim_data * (sim_time v)\<^sup>2 in
            bind_exc (py_div dist (line_L sim_data)) (\<lambda>frac.
              Inr (v\<lparr> pos_line_world :=
                        (fst point_a_world + frac * key_dx sim_data,
                         snd point_a_world + frac * key_dy sim_data) \<rparr>)))
         else Inr (v\<lparr> pos_line_world := point_b_world, line_finished := True \<rparr>))
      else Inr v)"

text \<open>Lines 345-367.\<close>

definition update_cycloid_bead :: "path_solution \<Rightarrow> point \<Rightarrow> point \<Rightarrow> sim_vars \<Rightarrow> py_exc + sim_vars" where
  "update_cycloid_bead sim_data point_a_world point_b_world v =
     (if \<not> cycloid_finished v then
        (let t = cycloid_t sim_data in
         if sim_time v < t then
           (case cycloid_r sim_data of
              PosInf \<Rightarrow>
                (let dist = 0.5 * G * (sim_time v)\<^sup>2 in
                 bind_exc (py_div dist (key_dy sim_data)) (\<lambda>frac.
                   Inr (v\<lparr> pos_cycloid_world :=
                             (fst point_a_world,
                              snd point_a_world + frac * key_dy sim_data) \<rparr>)))
            | Fin r \<Rightarrow>
                bind_exc (py_div r G) (\<lambda>q.
                bind_exc (math_sqrt q) (\<lambda>s.
                bind_exc (py_div (sim_time v) s) (\<lambda>theta_t.
                  (let direction = np_sign (key_dx sim_data) in
                   Inr (v\<lparr> pos_cycloid_world :=
                             (fst point_a_world + direction * r * (theta_t - sin theta_t),
                              snd point_a_world + r * (1 - cos theta_t)) \<rparr>))))))
         else Inr (v\<lparr> pos_cycloid_world := point_b_world, cycloid_finished := True \<rparr>))
      else Inr v)"

text \<open>Lines 326-370: one pass of the update with the frame time \<open>dt\<close>.\<close>

definition simulation_update ::
  "path_solution \<Rightarrow> point \<Rightarrow> point \<Rightarrow> real \<Rightarrow> sim_vars \<Rightarrow> py_exc + sim_vars" where
  "simulation_update sim_data point_a_world point_b_world dt v =
     (if state v = simulate then
        (let v1 = v\<lparr> sim_time := sim_time v + dt \<rparr> in
         bind_exc (update_line_bead sim_data point_a_world point_b_world v1) (\<lambda>v2.
         bind_exc (update_cycloid_bead sim_data point_a_world point_b_world v2) (\<lambda>v3.
           Inr (if line_finished v3 \<and> cycloid_finished v3
                then v3\<lparr> state := results \<rparr> else v3))))
      else Inr v)"

text \<open>
  The sampler at an elapsed time: one update of the freshly started simulation, whose
  clock stands at zero, with the whole elapsed time as the frame time.
\<close>

definition sample_at :: "path_solution \<Rightarrow> point \<Rightarrow> point \<Rightarrow> real \<Rightarrow> py_exc + sim_vars" where
  "sample_at sim_data point_a_world point_b_world elapsed =
     simulation_update sim_data point_a_world point_b_world elapsed
       (start_simulation point_a_world)"

text \<open>
  The main loop runs the update once per frame; a finite stretch of it is the update
  folded over the frame times, stopped by the first exception.
\<close>

fun run_updates ::
  "path_solution \<Rightarrow> point \<Rightarrow> point \<Rightarrow> real list \<Rightarrow> sim_vars \<Rightarrow> py_exc + sim_vars" where
  "run_updates sim_data point_a_world point_b_world [] v = Inr v"
| "run_updates sim_data point_a_world point_b_world (dt # dts) v =
     bind_exc (simulation_update sim_data point_a_world point_b_world dt v)
       (run_updates sim_data point_a_world point_b_world dts)"

section \<open>Facts about the helpers and the solver\<close>

lemma bind_exc_Inr [simp]: "bind_exc (Inr v) f = f v"
  by (simp add: bind_exc_def)

lemma bind_exc_Inl [simp]: "bind_exc (Inl e) f = Inl e"
  by (simp add: bind_exc_def)

lemma G_pos: "0 < G"
  by (simp add: G_def)

lemma math_sqrt_nonneg: "0 \<le> x \<Longrightarrow> math_sqrt x = Inr (sqrt x)"
  by (simp add: math_sqrt_def)

lemma py_div_nonzero: "b \<noteq> 0 \<Longrightarrow> py_div a b = Inr (a / b)"
  by (simp add: py_div_def)

lemma line_L_pos:
  fixes dx dy :: real
  assumes "0 < dy"
  shows "0 < sqrt (dx\<^sup>2 + dy\<^sup>2)"
proof -
  have "0 < dy\<^sup>2" using assms by simp
  moreover have "0 \<le> dx\<^sup>2" by simp
  ultimately have "0 < dx\<^sup>2 + dy\<^sup>2" by linarith
  then show ?thesis by simp
qed

lemma one_minus_cos_pos: "cos (th::real) \<noteq> 1 \<Longrightarrow> 0 < 1 - cos th"
  using cos_le_one [of th] by linarith

lemma path_times_degenerate:
  assumes "\<bar>dx\<bar> < 1" and "0 < L"
  shows "path_times fsolve dx dy L = Inr (Some (G, sqrt (2 * L / G), PosInf, 0, sqrt (2 * L / G)))"
proof -
  have "0 \<le> 2 * L / G" using assms G_pos by simp
  then show ?thesis
    using assms G_pos by (simp add: path_times_def py_div_nonzero math_sqrt_nonneg)
qed

lemma cycloid_try_value:
  assumes "fsolve (cycloid_equation ratio) pi = Inr th" and "cos th \<noteq> 1" and "0 < dy"
  shows "cycloid_try fsolve ratio dy =
           Inr (th, dy / (1 - cos th), th * sqrt (dy / (1 - cos th) / G))"
proof -
  have p: "0 < 1 - cos th" using assms(2) by (rule one_minus_cos_pos)
  then have "0 \<le> dy / (1 - cos th) / G" using assms(3) G_pos by simp
  then show ?thesis
    using assms p G_pos by (simp add: cycloid_try_def py_div_nonzero math_sqrt_nonneg)
qed

lemma path_times_general:
  assumes "\<not> \<bar>dx\<bar> < 1" and "0 < L" and "0 < dy"
  shows "path_times fsolve dx dy L =
           (case cycloid_try fsolve (\<bar>dx\<bar> / dy) dy of
              Inl e \<Rightarrow> (if e = RuntimeError \<or> e = ValueError then Inr None else Inl e)
            | Inr (theta_b_cycloid, r_cycloid, t_cycloid) \<Rightarrow>
                Inr (Some (G * dy / L, sqrt (2 * L / (G * dy / L)), Fin r_cycloid,
                           theta_b_cycloid, t_cycloid)))"
proof -
  have a: "0 < G * dy / L" using assms G_pos by simp
  have "0 \<le> 2 * L" using assms by simp
  then have "0 \<le> 2 * L / (G * dy / L)" using a by (rule divide_nonneg_pos)
  then show ?thesis
    using assms a G_pos
    by (simp add: path_times_def py_div_nonzero math_sqrt_nonneg split: sum.splits prod.splits)
qed

lemma calculate_paths_below:
  assumes "0 < snd B - snd A"
  shows "calculate_paths fsolve A B =
           bind_exc (path_times fsolve (fst B - fst A) (snd B - snd A)
                       (sqrt ((fst B - fst A)\<^sup>2 + (snd B - snd A)\<^sup>2))) (\<lambda>times.
             (case times of
                None \<Rightarrow> Inr None
              | Some (a_line, t_line, r_cycloid, theta_b_cycloid, t_cycloid) \<Rightarrow>
                  Inr (Some \<lparr> key_A = A, key_B = B, key_dx = fst B - fst A,
                              key_dy = snd B - snd A,
                              line_L = sqrt ((fst B - fst A)\<^sup>2 + (snd B - snd A)\<^sup>2),
                              line_a = a_line, line_t = t_line,
                              line_points = [A, B], cycloid_r = r_cycloid,
                              cycloid_theta_b = theta_b_cycloid, cycloid_t = t_cycloid,
                              cycloid_points =
                                (case r_cycloid of
                                   PosInf \<Rightarrow> [A, B]
                                 | Fin r \<Rightarrow> sample_cycloid A (fst B - fst A) r theta_b_cycloid) \<rparr>)))"
proof -
  have "0 \<le> (fst B - fst A)\<^sup>2 + (snd B - snd A)\<^sup>2" by simp
  then show ?thesis
    using assms by (simp add: calculate_paths_def Let_def math_sqrt_nonneg)
qed

lemma calculate_paths_general:
  assumes "0 < snd B - snd A" and "1 \<le> \<bar>fst B - fst A\<bar>"
    and "fsolve (cycloid_equation (\<bar>fst B - fst A\<bar> / (snd B - snd A))) pi = Inr th"
    and "cos th \<noteq> 1"
  shows "calculate_paths fsolve A B =
           (let dx = fst B - fst A; dy = snd B - snd A; L = sqrt (dx\<^sup>2 + dy\<^sup>2);
                r = dy / (1 - cos th)
            in Inr (Some \<lparr> key_A = A, key_B = B, key_dx = dx, key_dy = dy,
                      line_L = L, line_a = G * dy / L, line_t = sqrt (2 * L / (G * dy / L)),
                      line_points = [A, B], cycloid_r = Fin r,
                      cycloid_theta_b = th, cycloid_t = th * sqrt (r / G),
                      cycloid_points = sample_cycloid A dx r th \<rparr>))"
proof -
  have L: "0 < sqrt ((fst B - fst A)\<^sup>2 + (snd B - snd A)\<^sup>2)"
    using assms(1) by (rule line_L_pos)
  have n: "\<not> \<bar>fst B - fst A\<bar> < 1" using assms(2) by simp
  show ?thesis
    unfolding calculate_paths_below [OF assms(1)] path_times_general [OF n L assms(1)]
      cycloid_try_value [where fsolve = fsolve, OF assms(3) assms(4) assms(1)]
    by (simp add: Let_def)
qed

lemma calculate_paths_degenerate:
  assumes "0 < snd B - snd A" and "\<bar>fst B - fst A\<bar> < 1"
  shows "calculate_paths fsolve A B =
           (let dx = fst B - fst A; dy = snd B - snd A; L = sqrt (dx\<^sup>2 + dy\<^sup>2)
            in Inr (Some \<lparr> key_A = A, key_B = B, key_dx = dx, key_dy = dy,
                      line_L = L, line_a = G, line_t = sqrt (2 * L / G),
                      line_points = [A, B], cycloid_r = PosInf,
                      cycloid_theta_b = 0, cycloid_t = sqrt (2 * L / G),
                      cycloid_points = [A, B] \<rparr>))"
proof -
  have L: "0 < sqrt ((fst B - fst A)\<^sup>2 + (snd B - snd A)\<^sup>2)"
    using assms(1) by (rule line_L_pos)
  show ?thesis
    unfolding calculate_paths_below [OF assms(1)] path_times_degenerate [OF assms(2) L]
    by (simp add: Let_def)
qed

lemma cycloid_try_Inr:
  assumes "cycloid_try fsolve ratio dy = Inr (th, r, t)"
  shows "fsolve (cycloid_equation ratio) pi = Inr th \<and> cos th \<noteq> 1
         \<and> r = dy / (1 - cos th) \<and> t = th * sqrt (r / G)"
  using assms
  by (auto simp: cycloid_try_def bind_exc_def py_div_def math_sqrt_def
           split: sum.splits if_splits)

lemma calculate_paths_Some:
  assumes "calculate_paths fsolve A B = Inr (Some sd)"
  shows "0 < snd B - snd A \<and>
         ((\<bar>fst B - fst A\<bar> < 1 \<and>
           sd = (let dx = fst B - fst A; dy = snd B - snd A; L = sqrt (dx\<^sup>2 + dy\<^sup>2)
                 in \<lparr> key_A = A, key_B = B, key_dx = dx, key_dy = dy,
                      line_L = L, line_a = G, line_t = sqrt (2 * L / G),
                      line_points = [A, B], cycloid_r = PosInf,
                      cycloid_theta_b = 0, cycloid_t = sqrt (2 * L / G),
                      cycloid_points = [A, B] \<rparr>))
          \<or> (1 \<le> \<bar>fst B - fst A\<bar> \<and>
              (\<exists>th. fsolve (cycloid_equation (\<bar>fst B - fst A\<bar> / (snd B - snd A))) pi = Inr th
                 \<and> cos th \<noteq> 1
                 \<and> sd = (let dx = fst B - fst A; dy = snd B - snd A;
                             L = sqrt (dx\<^sup>2 + dy\<^sup>2); r = dy / (1 - cos th)
                         in \<lparr> key_A = A, key_B = B, key_dx = dx, key_dy = dy,
                              line_L = L, line_a = G * dy / L,
                              line_t = sqrt (2 * L / (G * dy / L)),
                              line_points = [A, B], cycloid_r = Fin r,
                              cycloid_theta_b = th, cycloid_t = th * sqrt (r / G),
                              cycloid_points = sample_cycloid A dx r th \<rparr>))))"
proof -
  have below: "0 < snd B - snd A"
  proof (rule ccontr)
    assume "\<not> 0 < snd B - snd A"
    then have "calculate_paths fsolve A B = Inr None"
      by (simp add: calculate_paths_def Let_def)
    with assms show False by simp
  qed
  show ?thesis
  proof (cases "\<bar>fst B - fst A\<bar> < 1")
    case True
    from calculate_paths_degenerate [OF below True, of fsolve] assms
    show ?thesis using below True by (simp add: Let_def)
  next
    case False
    have L: "0 < sqrt ((fst B - fst A)\<^sup>2 + (snd B - snd A)\<^sup>2)"
      using below by (rule line_L_pos)
    let ?blk = "cycloid_try fsolve (\<bar>fst B - fst A\<bar> / (snd B - snd A)) (snd B - snd A)"
    from assms obtain th r t where tr: "?blk = Inr (th, r, t)"
      unfolding calculate_paths_below [OF below]
        path_times_general [where fsolve = fsolve, OF False L below]
      by (cases ?blk) (auto split: if_splits)
    from cycloid_try_Inr [OF tr]
    have f: "fsolve (cycloid_equation (\<bar>fst B - fst A\<bar> / (snd B - snd A))) pi = Inr th"
      and c: "cos th \<noteq> 1" by simp_all
    have ge: "1 \<le> \<bar>fst B - fst A\<bar>" using False by simp
    from calculate_paths_general [where fsolve = fsolve, OF below ge f c] assms
    show ?thesis using below ge f c by (auto simp: Let_def)
  qed
qed


lemma solution_shape:
  assumes "calculate_paths fsolve A B = Inr (Some sd)"
  shows "key_dx sd = fst B - fst A" and "key_dy sd = snd B - snd A" and "0 < key_dy sd"
    and "line_L sd = sqrt ((key_dx sd)\<^sup>2 + (key_dy sd)\<^sup>2)" and "0 < line_L sd"
    and "0 < line_a sd" and "line_t sd = sqrt (2 * line_L sd / line_a sd)"
    and "cycloid_r sd = Fin r \<Longrightarrow> 0 < r"
    and "cycloid_r sd = PosInf \<Longrightarrow> cycloid_t sd = line_t sd \<and> line_a sd = G"
proof -
  note c = calculate_paths_Some [OF assms]
  then have below: "0 < snd B - snd A" by simp
  have L: "0 < sqrt ((fst B - fst A)\<^sup>2 + (snd B - snd A)\<^sup>2)"
    using below by (rule line_L_pos)
  show "key_dx sd = fst B - fst A" using c by (auto simp: Let_def)
  show dy: "key_dy sd = snd B - snd A" using c by (auto simp: Let_def)
  show "0 < key_dy sd" using dy below by simp
  show "line_L sd = sqrt ((key_dx sd)\<^sup>2 + (key_dy sd)\<^sup>2)" using c by (auto simp: Let_def)
  show "0 < line_L sd" using c L by (auto simp: Let_def)
  have "0 < G * (snd B - snd A) / sqrt ((fst B - fst A)\<^sup>2 + (snd B - snd A)\<^sup>2)"
    using below L G_pos by simp
  then show "0 < line_a sd" using c G_pos by (auto simp: Let_def)
  show "line_t sd = sqrt (2 * line_L sd / line_a sd)" using c by (auto simp: Let_def)
  show "0 < r" if "cycloid_r sd = Fin r"
  proof -
    from c that obtain th where "cos th \<noteq> 1" and "r = (snd B - snd A) / (1 - cos th)"
      by (auto simp: Let_def)
    then show ?thesis using below one_minus_cos_pos [of th] by simp
  qed
  show "cycloid_t sd = line_t sd \<and> line_a sd = G" if "cycloid_r sd = PosInf"
    using c that by (auto simp: Let_def)
qed

lemma update_line_bead_total:
  assumes "line_L sd \<noteq> 0"
  shows "\<exists>v'. update_line_bead sd A B v = Inr v'"
  using assms by (simp add: update_line_bead_def Let_def py_div_def)

lemma update_cycloid_bead_total:
  assumes "key_dy sd \<noteq> 0" and "\<And>r. cycloid_r sd = Fin r \<Longrightarrow> 0 < r"
  shows "\<exists>v'. update_cycloid_bead sd A B v = Inr v'"
proof (cases "cycloid_r sd")
  case PosInf
  then show ?thesis
    using assms(1) by (simp add: update_cycloid_bead_def Let_def py_div_def)
next
  case (Fin r)
  then have "0 < r" by (rule assms(2))
  then have "0 < r / G" and "sqrt (r / G) \<noteq> 0" using G_pos by simp_all
  then show ?thesis
    using Fin G_pos
    by (simp add: update_cycloid_bead_def Let_def py_div_def math_sqrt_def)
qed

lemma simulation_update_total:
  assumes "line_L sd \<noteq> 0" and "key_dy sd \<noteq> 0" and "\<And>r. cycloid_r sd = Fin r \<Longrightarrow> 0 < r"
  shows "\<exists>v'. simulation_update sd A B dt v = Inr v'"
proof (cases "state v = simulate")
  case False
  then show ?thesis by (simp add: simulation_update_def)
next
  case True
  obtain v2 where l: "update_line_bead sd A B (v\<lparr>sim_time := sim_time v + dt\<rparr>) = Inr v2"
    using update_line_bead_total [OF assms(1)] by blast
  obtain v3 where c: "update_cycloid_bead sd A B v2 = Inr v3"
    using update_cycloid_bead_total [OF assms(2) assms(3)] by blast
  show ?thesis using True l c by (simp add: simulation_update_def Let_def)
qed

lemma update_line_bead_keeps:
  assumes "update_line_bead sd A B v = Inr v'"
  shows "state v' = state v" and "sim_time v' = sim_time v"
    and "cycloid_finished v' = cycloid_finished v" and "pos_cycloid_world v' = pos_cycloid_world v"
    and "line_finished v \<Longrightarrow> line_finished v' \<and> pos_line_world v' = pos_line_world v"
    and "\<not> line_finished v \<Longrightarrow> line_t sd \<le> sim_time v \<Longrightarrow>
           line_finished v' \<and> pos_line_world v' = B"
  using assms
  by (auto simp: update_line_bead_def Let_def bind_exc_def split: if_splits sum.splits)

lemma update_cycloid_bead_keeps:
  assumes "update_cycloid_bead sd A B v = Inr v'"
  shows "state v' = state v" and "sim_time v' = sim_time v"
    and "line_finished v' = line_finished v" and "pos_line_world v' = pos_line_world v"
    and "cycloid_finished v \<Longrightarrow> cycloid_finished v' \<and> pos_cycloid_world v' = pos_cycloid_world v"
    and "\<not> cycloid_finished v \<Longrightarrow> cycloid_t sd \<le> sim_time v \<Longrightarrow>
           cycloid_finished v' \<and> pos_cycloid_world v' = B"
  using assms
  by (auto simp: update_cycloid_bead_def Let_def bind_exc_def
           split: if_splits sum.splits pyfloat.splits)

lemma simulation_update_steps:
  assumes "simulation_update sd A B dt v = Inr v'"
  shows "line_finished v \<Longrightarrow> line_finished v' \<and> pos_line_world v' = pos_line_world v"
    and "cycloid_finished v \<Longrightarrow> cycloid_finished v' \<and> pos_cycloid_world v' = pos_cycloid_world v"
    and "state v = simulate \<Longrightarrow> \<not> line_finished v \<Longrightarrow> line_t sd \<le> sim_time v + dt \<Longrightarrow>
           line_finished v' \<and> pos_line_world v' = B"
    and "state v = simulate \<Longrightarrow> \<not> cycloid_finished v \<Longrightarrow> cycloid_t sd \<le> sim_time v + dt \<Longrightarrow>
           cycloid_finished v' \<and> pos_cycloid_world v' = B"
proof -
  let ?v1 = "v\<lparr>sim_time := sim_time v + dt\<rparr>"
  have *: "\<exists>v2 v3. update_line_bead sd A B ?v1 = Inr v2 \<and> update_cycloid_bead sd A B v2 = Inr v3
             \<and> (v' = v3 \<or> v' = v3\<lparr>state := results\<rparr>)"
    if "state v = simulate"
    using assms that
    by (auto simp: simulation_update_def Let_def bind_exc_def split: sum.splits if_splits)
  have same: "v' = v" if "state v \<noteq> simulate"
    using assms that by (simp add: simulation_update_def)
  show "line_finished v' \<and> pos_line_world v' = pos_line_world v" if f: "line_finished v"
  proof (cases "state v = simulate")
    case True
    from * [OF True] obtain v2 v3 where l: "update_line_bead sd A B ?v1 = Inr v2"
      and c: "update_cycloid_bead sd A B v2 = Inr v3" and e: "v' = v3 \<or> v' = v3\<lparr>state := results\<rparr>"
      by blast
    have "line_finished v2 \<and> pos_line_world v2 = pos_line_world v"
      using update_line_bead_keeps(5) [OF l] f by simp
    then have "line_finished v3 \<and> pos_line_world v3 = pos_line_world v"
      using update_cycloid_bead_keeps(3,4) [OF c] by simp
    then show ?thesis using e by auto
  next
    case False
    then show ?thesis using same f by simp
  qed
  show "cycloid_finished v' \<and> pos_cycloid_world v' = pos_cycloid_world v" if f: "cycloid_finished v"
  proof (cases "state v = simulate")
    case True
    from * [OF True] obtain v2 v3 where l: "update_line_bead sd A B ?v1 = Inr v2"
      and c: "update_cycloid_bead sd A B v2 = Inr v3" and e: "v' = v3 \<or> v' = v3\<lparr>state := results\<rparr>"
      by blast
    have "cycloid_finished v2 \<and> pos_cycloid_world v2 = pos_cycloid_world v"
      using update_line_bead_keeps(3,4) [OF l] f by simp
    then have "cycloid_finished v3 \<and> pos_cycloid_world v3 = pos_cycloid_world v"
      using update_cycloid_bead_keeps(5) [OF c] by simp
    then show ?thesis using e by auto
  next
    case False
    then show ?thesis using same f by simp
  qed
  show "line_finished v' \<and> pos_line_world v' = B"
    if s: "state v = simulate" and f: "\<not> line_finished v" and t: "line_t sd \<le> sim_time v + dt"
  proof -
    from * [OF s] obtain v2 v3 where l: "update_line_bead sd A B ?v1 = Inr v2"
      and c: "update_cycloid_bead sd A B v2 = Inr v3" and e: "v' = v3 \<or> v' = v3\<lparr>state := results\<rparr>"
      by blast
    have "line_finished v2 \<and> pos_line_world v2 = B"
      using update_line_bead_keeps(6) [OF l] f t by simp
    then have "line_finished v3 \<and> pos_line_world v3 = B"
      using update_cycloid_bead_keeps(3,4) [OF c] by simp
    then show ?thesis using e by auto
  qed
  show "cycloid_finished v' \<and> pos_cycloid_world v' = B"
    if s: "state v = simulate" and f: "\<not> cycloid_finished v" and t: "cycloid_t sd \<le> sim_time v + dt"
  proof -
    from * [OF s] obtain v2 v3 where l: "update_line_bead sd A B ?v1 = Inr v2"
      and c: "update_cycloid_bead sd A B v2 = Inr v3" and e: "v' = v3 \<or> v' = v3\<lparr>state := results\<rparr>"
      by blast
    have "\<not> cycloid_finished v2" and "sim_time v2 = sim_time v + dt"
      using update_line_bead_keeps(2,3) [OF l] f by simp_all
    then have "cycloid_finished v3 \<and> pos_cycloid_world v3 = B"
      using update_cycloid_bead_keeps(6) [OF c] t by simp
    then show ?thesis using e by auto
  qed
qed

lemma run_updates_total:
  assumes "line_L sd \<noteq> 0" and "key_dy sd \<noteq> 0" and "\<And>r. cycloid_r sd = Fin r \<Longrightarrow> 0 < r"
  shows "\<exists>v'. run_updates sd A B dts v = Inr v'"
proof (induction dts arbitrary: v)
  case Nil
  show ?case by simp
next
  case (Cons dt dts)
  obtain v1 where "simulation_update sd A B dt v = Inr v1"
    using simulation_update_total [OF assms] by blast
  then show ?case using Cons.IH [of v1] by simp
qed

lemma run_updates_line_pinned:
  assumes "run_updates sd A B dts v = Inr v'" and "line_finished v"
  shows "line_finished v' \<and> pos_line_world v' = pos_line_world v"
  using assms
proof (induction dts arbitrary: v)
  case Nil
  then show ?case by simp
next
  case (Cons dt dts)
  from Cons.prems(1) obtain v1 where s: "simulation_update sd A B dt v = Inr v1"
    and r: "run_updates sd A B dts v1 = Inr v'"
    by (auto simp: bind_exc_def split: sum.splits)
  have "line_finished v1 \<and> pos_line_world v1 = pos_line_world v"
    using simulation_update_steps(1) [OF s] Cons.prems(2) by simp
  then show ?case using Cons.IH [OF r] by simp
qed

lemma run_updates_cycloid_pinned:
  assumes "run_updates sd A B dts v = Inr v'" and "cycloid_finished v"
  shows "cycloid_finished v' \<and> pos_cycloid_world v' = pos_cycloid_world v"
  using assms
proof (induction dts arbitrary: v)
  case Nil
  then show ?case by simp
next
  case (Cons dt dts)
  from Cons.prems(1) obtain v1 where s: "simulation_update sd A B dt v = Inr v1"
    and r: "run_updates sd A B dts v1 = Inr v'"
    by (auto simp: bind_exc_def split: sum.splits)
  have "cycloid_finished v1 \<and> pos_cycloid_world v1 = pos_cycloid_world v"
    using simulation_update_steps(2) [OF s] Cons.prems(2) by simp
  then show ?case using Cons.IH [OF r] by simp
qed

lemma update_line_bead_in_flight:
  assumes "\<not> line_finished v" and "sim_time v < line_t sd" and "line_L sd \<noteq> 0"
  shows "update_line_bead sd A B v =
           Inr (v\<lparr> pos_line_world :=
                    (fst A + 0.5 * line_a sd * (sim_time v)\<^sup>2 / line_L sd * key_dx sd,
                     snd A + 0.5 * line_a sd * (sim_time v)\<^sup>2 / line_L sd * key_dy sd) \<rparr>)"
  using assms by (simp add: update_line_bead_def Let_def py_div_def)

lemma update_cycloid_bead_degenerate_in_flight:
  assumes "\<not> cycloid_finished v" and "sim_time v < cycloid_t sd" and "key_dy sd \<noteq> 0"
    and "cycloid_r sd = PosInf"
  shows "update_cycloid_bead sd A B v =
           Inr (v\<lparr> pos_cycloid_world :=
                    (fst A, snd A + 0.5 * G * (sim_time v)\<^sup>2 / key_dy sd * key_dy sd) \<rparr>)"
  using assms by (simp add: update_cycloid_bead_def Let_def py_div_def)

lemma sample_at_positions:
  assumes "line_L sd \<noteq> 0" and "key_dy sd \<noteq> 0" and "\<And>r. cycloid_r sd = Fin r \<Longrightarrow> 0 < r"
  shows "\<exists>v2 v3 v'. update_line_bead sd A B ((start_simulation A)\<lparr>sim_time := t\<rparr>) = Inr v2
           \<and> update_cycloid_bead sd A B v2 = Inr v3
           \<and> sample_at sd A B t = Inr v'
           \<and> pos_line_world v' = pos_line_world v2 \<and> line_finished v' = line_finished v2
           \<and> pos_cycloid_world v' = pos_cycloid_world v3
           \<and> cycloid_finished v' = cycloid_finished v3"
proof -
  let ?v1 = "(start_simulation A)\<lparr>sim_time := t\<rparr>"
  obtain v2 where l: "update_line_bead sd A B ?v1 = Inr v2"
    using update_line_bead_total [OF assms(1)] by blast
  obtain v3 where c: "update_cycloid_bead sd A B v2 = Inr v3"
    using update_cycloid_bead_total [OF assms(2) assms(3)] by blast
  let ?v' = "if line_finished v3 \<and> cycloid_finished v3 then v3\<lparr>state := results\<rparr> else v3"
  have s: "sample_at sd A B t = Inr ?v'"
    using l c by (simp add: sample_at_def simulation_update_def Let_def start_simulation_def)
  have "pos_line_world ?v' = pos_line_world v2 \<and> line_finished ?v' = line_finished v2
        \<and> pos_cycloid_world ?v' = pos_cycloid_world v3
        \<and> cycloid_finished ?v' = cycloid_finished v3"
    using update_cycloid_bead_keeps(3,4) [OF c] by simp
  then show ?thesis using l c s by blast
qed

lemma line_frac_bounds:
  fixes a L t :: real
  assumes "0 < a" and "0 < L" and "t \<noteq> 0" and "\<bar>t\<bar> < sqrt (2 * L / a)"
  shows "0 < 0.5 * a * t\<^sup>2 / L" and "0.5 * a * t\<^sup>2 / L < 1"
proof -
  have t2: "0 < t\<^sup>2" using assms(3) by simp
  then show "0 < 0.5 * a * t\<^sup>2 / L" using assms(1,2) by simp
  have "0 \<le> 2 * L / a" using assms(1,2) by simp
  then have "(sqrt (2 * L / a))\<^sup>2 = 2 * L / a" by simp
  moreover have "\<bar>t\<bar>\<^sup>2 < (sqrt (2 * L / a))\<^sup>2"
    using assms(4) by (intro power_strict_mono) simp_all
  ultimately have "t\<^sup>2 < 2 * L / a" by simp
  then have "a * t\<^sup>2 < 2 * L" using assms(1) by (simp add: field_simps)
  then show "0.5 * a * t\<^sup>2 / L < 1" using assms(2) by (simp add: field_simps)
qed


lemma example_general_solution:
  "calculate_paths (\<lambda>f x0. Inr pi) (0, 0) (pi, 2) =
     Inr (Some \<lparr> key_A = (0, 0), key_B = (pi, 2), key_dx = pi, key_dy = 2,
                 line_L = sqrt (pi\<^sup>2 + 4), line_a = G * 2 / sqrt (pi\<^sup>2 + 4),
                 line_t = sqrt (2 * sqrt (pi\<^sup>2 + 4) / (G * 2 / sqrt (pi\<^sup>2 + 4))),
                 line_points = [(0, 0), (pi, 2)], cycloid_r = Fin 1,
                 cycloid_theta_b = pi, cycloid_t = pi * sqrt (1 / G),
                 cycloid_points = sample_cycloid (0, 0) pi 1 pi \<rparr>)"
proof -
  have p: "1 \<le> \<bar>fst (pi, 2::real) - fst (0::real, 0::real)\<bar>"
    using pi_ge_two by simp
  show ?thesis
    using calculate_paths_general [where A = "(0, 0)" and B = "(pi, 2)"
        and fsolve = "\<lambda>f x0. Inr pi" and th = pi] p
    by (simp add: cycloid_equation_def Let_def)
qed

lemma example_general_times:
  shows "sqrt (2 * sqrt (pi\<^sup>2 + 4) / (G * 2 / sqrt (pi\<^sup>2 + 4))) \<le> 1"
    and "pi * sqrt (1 / G) \<le> 1"
proof -
  have pos: "0 < pi\<^sup>2 + 4" by (simp add: add_pos_nonneg)
  then have L: "0 < sqrt (pi\<^sup>2 + 4)" by simp
  have LL: "sqrt (pi\<^sup>2 + 4) * sqrt (pi\<^sup>2 + 4) = pi\<^sup>2 + 4" using pos by simp
  have "pi\<^sup>2 \<le> 4\<^sup>2" using pi_less_4 pi_ge_zero by (intro power_mono) simp_all
  then have b: "pi\<^sup>2 + 4 \<le> G" by (simp add: G_def)
  have "2 * sqrt (pi\<^sup>2 + 4) / (G * 2 / sqrt (pi\<^sup>2 + 4)) = (pi\<^sup>2 + 4) / G"
    using L G_pos LL by (simp add: field_simps)
  also have "\<dots> \<le> 1" using b G_pos by simp
  finally show "sqrt (2 * sqrt (pi\<^sup>2 + 4) / (G * 2 / sqrt (pi\<^sup>2 + 4))) \<le> 1" by simp
  have "sqrt (1 / G) \<le> 1 / 4"
    by (rule real_le_lsqrt) (simp_all add: G_def power2_eq_square)
  then have "pi * sqrt (1 / G) \<le> 4 * (1 / 4)"
    using pi_less_4 pi_ge_zero G_pos by (intro mult_mono) (simp_all add: less_imp_le)
  then show "pi * sqrt (1 / G) \<le> 1" by simp
qed


lemma cycloid_poly_ineq:
  fixes th s c :: real
  assumes "s\<^sup>2 + c\<^sup>2 = 1"
  shows "th\<^sup>2 * (1 - c) \<le> 2 * ((th - s)\<^sup>2 + (1 - c)\<^sup>2)"
proof -
  have s2: "s\<^sup>2 = 1 - c\<^sup>2" using assms by simp
  have "c\<^sup>2 \<le> 1" using assms zero_le_power2 [of s] by linarith
  then have c1: "- 1 \<le> c" using abs_square_le_1 [of c] by simp
  have E: "2 * ((th - s)\<^sup>2 + (1 - c)\<^sup>2) - th\<^sup>2 * (1 - c)
            = th\<^sup>2 * (1 + c) - 4 * th * s + 4 * (1 - c)"
    using s2 by (simp add: power2_eq_square algebra_simps)
  have "0 \<le> th\<^sup>2 * (1 + c) - 4 * th * s + 4 * (1 - c)"
  proof (cases "c = - 1")
    case True
    then have "s = 0" using s2 by simp
    then show ?thesis using True by simp
  next
    case False
    then have p: "0 < 1 + c" using c1 by simp
    have "(1 + c) * (th\<^sup>2 * (1 + c) - 4 * th * s + 4 * (1 - c)) = ((1 + c) * th - 2 * s)\<^sup>2"
      using s2 by (simp add: power2_eq_square algebra_simps)
    then have "0 \<le> (1 + c) * (th\<^sup>2 * (1 + c) - 4 * th * s + 4 * (1 - c))" by simp
    then show ?thesis using p by (simp add: zero_le_mult_iff)
  qed
  then show ?thesis using E by linarith
qed

lemma cycloid_root_positive:
  fixes th ratio :: real
  assumes "0 < ratio" and "cos th \<noteq> 1" and "th - sin th = ratio * (1 - cos th)"
  shows "0 < th"
proof (rule ccontr)
  assume "\<not> 0 < th"
  then have "0 \<le> - th" by simp
  then have "sin (- th) \<le> - th" by (rule sin_x_le_x)
  then have "th - sin th \<le> 0" by simp
  moreover have "0 < ratio * (1 - cos th)"
    using assms(1) one_minus_cos_pos [OF assms(2)] by simp
  ultimately show False using assms(3) by simp
qed

lemma brachistochrone_times:
  fixes dx dy th :: real
  assumes dy: "0 < dy" and dx: "dx \<noteq> 0" and c: "cos th \<noteq> 1"
    and root: "th - sin th = (\<bar>dx\<bar> / dy) * (1 - cos th)"
  shows "th * sqrt (dy / (1 - cos th) / G)
           \<le> sqrt (2 * sqrt (dx\<^sup>2 + dy\<^sup>2) / (G * dy / sqrt (dx\<^sup>2 + dy\<^sup>2)))"
proof -
  define k where "k = 1 - cos th"
  have k: "0 < k" unfolding k_def using c by (rule one_minus_cos_pos)
  have ratio: "0 < \<bar>dx\<bar> / dy" using dy dx by simp
  have th: "0 < th" using ratio c root by (rule cycloid_root_positive)
  have L: "0 < sqrt (dx\<^sup>2 + dy\<^sup>2)" using dy by (rule line_L_pos)
  have LL: "sqrt (dx\<^sup>2 + dy\<^sup>2) * sqrt (dx\<^sup>2 + dy\<^sup>2) = dx\<^sup>2 + dy\<^sup>2" by simp
  have rhs: "2 * sqrt (dx\<^sup>2 + dy\<^sup>2) / (G * dy / sqrt (dx\<^sup>2 + dy\<^sup>2))
               = 2 * (dx\<^sup>2 + dy\<^sup>2) / (G * dy)"
    using L LL by (simp add: field_simps)
  have "\<bar>dx\<bar> = dy * (th - sin th) / k"
    using root k dy unfolding k_def by (simp add: field_simps)
  then have "\<bar>dx\<bar>\<^sup>2 = (dy * (th - sin th) / k)\<^sup>2" by simp
  then have dx2: "dx\<^sup>2 = dy\<^sup>2 * (th - sin th)\<^sup>2 / k\<^sup>2"
    by (simp add: power_mult_distrib power_divide)
  have poly: "th\<^sup>2 * k \<le> 2 * ((th - sin th)\<^sup>2 + k\<^sup>2)"
    unfolding k_def by (rule cycloid_poly_ineq) simp
  have f: "0 \<le> dy / (k\<^sup>2 * G)" using dy G_pos by simp
  have "th\<^sup>2 * k * (dy / (k\<^sup>2 * G)) \<le> 2 * ((th - sin th)\<^sup>2 + k\<^sup>2) * (dy / (k\<^sup>2 * G))"
    using poly f by (rule mult_right_mono)
  moreover have "th\<^sup>2 * k * (dy / (k\<^sup>2 * G)) = th\<^sup>2 * (dy / k / G)"
    using k by (simp add: power2_eq_square field_simps)
  moreover have "2 * ((th - sin th)\<^sup>2 + k\<^sup>2) * (dy / (k\<^sup>2 * G)) = 2 * (dx\<^sup>2 + dy\<^sup>2) / (G * dy)"
    unfolding dx2 using k dy G_pos by (simp add: power2_eq_square field_simps)
  ultimately have "th\<^sup>2 * (dy / k / G) \<le> 2 * (dx\<^sup>2 + dy\<^sup>2) / (G * dy)" by simp
  then have le: "sqrt (th\<^sup>2 * (dy / k / G)) \<le> sqrt (2 * (dx\<^sup>2 + dy\<^sup>2) / (G * dy))"
    by (rule real_sqrt_le_mono)
  have eq: "sqrt (th\<^sup>2 * (dy / k / G)) = th * sqrt (dy / k / G)"
  proof -
    have "sqrt (th\<^sup>2 * (dy / k / G)) = sqrt (th\<^sup>2) * sqrt (dy / k / G)"
      by (rule real_sqrt_mult)
    moreover have "sqrt (th\<^sup>2) = th" using th by simp
    ultimately show ?thesis by (simp only:)
  qed
  from le have "th * sqrt (dy / k / G) \<le> sqrt (2 * (dx\<^sup>2 + dy\<^sup>2) / (G * dy))"
    by (simp only: eq)
  then show ?thesis unfolding rhs k_def .
qed

lemma np_sign_sgn: "np_sign x = sgn x"
  by (simp add: np_sign_def sgn_real_def)

lemma length_np_linspace: "length (np_linspace start stop num) = num"
  by (simp add: np_linspace_def)

lemma nth_np_linspace:
  "i < num \<Longrightarrow> np_linspace start stop num ! i = start + real i * ((stop - start) / real (num - 1))"
  by (simp add: np_linspace_def)

lemma length_sample_cycloid: "length (sample_cycloid A dx r th) = 100"
  by (simp add: sample_cycloid_def Let_def length_np_linspace)

lemma nth_sample_cycloid:
  assumes "i < 100"
  shows "sample_cycloid A dx r th ! i =
           (fst A + sgn dx * r * (real i * (th / 99) - sin (real i * (th / 99))),
            snd A + r * (1 - cos (real i * (th / 99))))"
  using assms
  by (simp add: sample_cycloid_def Let_def length_np_linspace nth_np_linspace np_sign_sgn)

lemma hd_sample_cycloid: "hd (sample_cycloid A dx r th) = A"
proof -
  have "sample_cycloid A dx r th \<noteq> []"
    using length_sample_cycloid [of A dx r th] by auto
  then have "hd (sample_cycloid A dx r th) = sample_cycloid A dx r th ! 0"
    by (rule hd_conv_nth)
  then show ?thesis by (simp add: nth_sample_cycloid)
qed

lemma last_sample_cycloid:
  "last (sample_cycloid A dx r th) =
     (fst A + sgn dx * r * (th - sin th), snd A + r * (1 - cos th))"
proof -
  have ne: "sample_cycloid A dx r th \<noteq> []"
    using length_sample_cycloid [of A dx r th] by auto
  have "last (sample_cycloid A dx r th) = sample_cycloid A dx r th ! 99"
    using last_conv_nth [OF ne] by (simp add: length_sample_cycloid)
  then show ?thesis by (simp add: nth_sample_cycloid)
qed

lemma cycloid_end_point:
  fixes dx dy th :: real
  assumes "0 < dy" and "cos th \<noteq> 1" and "th - sin th = (\<bar>dx\<bar> / dy) * (1 - cos th)"
  shows "sgn dx * (dy / (1 - cos th)) * (th - sin th) = dx"
    and "dy / (1 - cos th) * (1 - cos th) = dy"
proof -
  have k: "1 - cos th \<noteq> 0" using assms(2) by simp
  show "dy / (1 - cos th) * (1 - cos th) = dy" using k by simp
  have "sgn dx * (dy / (1 - cos th)) * (th - sin th)
          = sgn dx * (dy / (1 - cos th)) * ((\<bar>dx\<bar> / dy) * (1 - cos th))"
    using assms(3) by simp
  also have "\<dots> = sgn dx * \<bar>dx\<bar>" using k assms(1) by simp
  also have "\<dots> = dx" by (simp add: sgn_real_def)
  finally show "sgn dx * (dy / (1 - cos th)) * (th - sin th) = dx" .
qed

lemma sample_cycloid_mirror:
  "sample_cycloid A (- dx) r th = map (\<lambda>p. (2 * fst A - fst p, snd p)) (sample_cycloid A dx r th)"
  by (simp add: sample_cycloid_def Let_def np_sign_def)

text \<open>
  The radius of line 82 is a Python float division: an angle with \<open>cos th = 1\<close> (such as
  the trivial root 0 of the equation) raises ZeroDivisionError, which the
  \<^verbatim>\<open>except\<close> clause does not name, so it leaves the solver.
\<close>

lemma calculate_paths_zero_division:
  assumes "0 < snd B - snd A" and "1 \<le> \<bar>fst B - fst A\<bar>"
    and "fsolve (cycloid_equation (\<bar>fst B - fst A\<bar> / (snd B - snd A))) pi = Inr th"
    and "cos th = 1"
  shows "calculate_paths fsolve A B = Inl ZeroDivisionError"
proof -
  have L: "0 < sqrt ((fst B - fst A)\<^sup>2 + (snd B - snd A)\<^sup>2)"
    using assms(1) by (rule line_L_pos)
  have n: "\<not> \<bar>fst B - fst A\<bar> < 1" using assms(2) by simp
  have "cycloid_try fsolve (\<bar>fst B - fst A\<bar> / (snd B - snd A)) (snd B - snd A)
          = Inl ZeroDivisionError"
    using assms(3,4) by (simp add: cycloid_try_def py_div_def)
  then show ?thesis
    unfolding calculate_paths_below [OF assms(1)]
      path_times_general [where fsolve = fsolve, OF n L assms(1)]
    by simp
qed

section \<open>The claims of the specification\<close>

text \<open>
  Claim C1. In the general case (\<open>dy > 0\<close> and \<open>|dx| \<ge> 1\<close>), when the root finder
  returns \<open>theta\<close> for the equation \<open>(th - sin th) - (|dx| / dy) (1 - cos th) = 0\<close> seeded
  at \<open>pi\<close> (and the radius is defined, \<open>cos theta \<noteq> 1\<close>), the solver returns a solution
  with \<open>line_a = G dy / L\<close>, \<open>line_t = sqrt (2 L / line_a)\<close>, \<open>L = sqrt (dx\<^sup>2 + dy\<^sup>2)\<close>,
  \<open>cycloid_r = dy / (1 - cos theta)\<close> and \<open>cycloid_t = theta sqrt (cycloid_r / G)\<close>.
\<close>

theorem C1_general_case_values:
  assumes "0 < snd B - snd A" and "1 \<le> \<bar>fst B - fst A\<bar>"
    and "fsolve (\<lambda>th. (th - sin th) - (\<bar>fst B - fst A\<bar> / (snd B - snd A)) * (1 - cos th)) pi
           = Inr theta"
    and "cos theta \<noteq> 1"
  shows "\<exists>sd. calculate_paths fsolve A B = Inr (Some sd)
           \<and> line_L sd = sqrt ((fst B - fst A)\<^sup>2 + (snd B - snd A)\<^sup>2)
           \<and> line_a sd = G * (snd B - snd A) / line_L sd
           \<and> line_t sd = sqrt (2 * line_L sd / line_a sd)
           \<and> cycloid_theta_b sd = theta
           \<and> (\<exists>r. cycloid_r sd = Fin r \<and> r = (snd B - snd A) / (1 - cos theta)
                  \<and> cycloid_t sd = theta * sqrt (r / G))"
proof -
  have eq: "fsolve (cycloid_equation (\<bar>fst B - fst A\<bar> / (snd B - snd A))) pi = Inr theta"
    using assms(3) by (simp add: cycloid_equation_def)
  show ?thesis
    unfolding calculate_paths_general [where fsolve = fsolve, OF assms(1) assms(2) eq assms(4)]
    by (simp add: Let_def)
qed

theorem C1_general_case_values_witness:
  "0 < snd (pi, 2::real) - snd (0::real, 0::real)
   \<and> 1 \<le> \<bar>fst (pi, 2::real) - fst (0::real, 0::real)\<bar>
   \<and> cos pi \<noteq> (1::real)
   \<and> (\<exists>sd. calculate_paths (\<lambda>f x0. Inr pi) (0, 0) (pi, 2) = Inr (Some sd)
          \<and> line_a sd = G * 2 / sqrt (pi\<^sup>2 + 4)
          \<and> cycloid_theta_b sd = pi \<and> cycloid_r sd = Fin 1
          \<and> cycloid_t sd = pi * sqrt (1 / G))"
proof -
  have p: "1 \<le> \<bar>fst (pi, 2::real) - fst (0::real, 0::real)\<bar>"
    using pi_ge_two by simp
  have "\<exists>sd. calculate_paths (\<lambda>f x0. Inr pi) (0, 0) (pi, 2) = Inr (Some sd)
          \<and> line_L sd = sqrt (pi\<^sup>2 + 4)
          \<and> line_a sd = G * 2 / line_L sd
          \<and> line_t sd = sqrt (2 * line_L sd / line_a sd)
          \<and> cycloid_theta_b sd = pi
          \<and> (\<exists>r. cycloid_r sd = Fin r \<and> r = 1 \<and> cycloid_t sd = pi * sqrt (r / G))"
    using p C1_general_case_values [where A = "(0, 0)" and B = "(pi, 2)"
        and fsolve = "\<lambda>f x0. Inr pi" and theta = pi]
    by simp
  then obtain sd where "calculate_paths (\<lambda>f x0. Inr pi) (0, 0) (pi, 2) = Inr (Some sd)"
    and "line_a sd = G * 2 / sqrt (pi\<^sup>2 + 4)" and "cycloid_theta_b sd = pi"
    and "cycloid_r sd = Fin 1" and "cycloid_t sd = pi * sqrt (1 / G)"
    by auto
  then show ?thesis using p by auto
qed



text \<open>
  Claim C3. When \<open>dy = By - Ay \<le> 0\<close> (B is not strictly below A), the solver returns
  its failure value \<^verbatim>\<open>None\<close>, whatever the root finder would do: no solution
  record, complete or partial, is produced.
\<close>

theorem C3_not_below_returns_None:
  assumes "snd B - snd A \<le> 0"
  shows "calculate_paths fsolve A B = Inr None"
  using assms by (simp add: calculate_paths_def Let_def)

theorem C3_not_below_returns_None_witness:
  "snd (0::real, - 100::real) - snd (0::real, 0::real) \<le> 0
   \<and> calculate_paths (\<lambda>f x0. Inr pi) (0, 0) (0, - 100) = Inr None"
  using C3_not_below_returns_None [where A = "(0, 0)" and B = "(0, - 100)"
      and fsolve = "\<lambda>f x0. Inr pi"] by simp

text \<open>
  Claim C4. In the degenerate case (\<open>dy > 0\<close> and \<open>|dx| < 1\<close>) the solver returns the
  solution with straight acceleration \<open>G\<close>, straight time \<open>sqrt (2 L / G)\<close>, the
  cycloid time equal to the straight time, an infinite radius, the angle 0 and the
  cycloid polyline equal to the straight polyline \<open>[A, B]\<close>.
\<close>

theorem C4_degenerate_case:
  assumes "0 < snd B - snd A" and "\<bar>fst B - fst A\<bar> < 1"
  shows "calculate_paths fsolve A B =
           (let dx = fst B - fst A; dy = snd B - snd A; L = sqrt (dx\<^sup>2 + dy\<^sup>2)
            in Inr (Some \<lparr> key_A = A, key_B = B, key_dx = dx, key_dy = dy,
                      line_L = L, line_a = G, line_t = sqrt (2 * L / G),
                      line_points = [A, B], cycloid_r = PosInf,
                      cycloid_theta_b = 0, cycloid_t = sqrt (2 * L / G),
                      cycloid_points = [A, B] \<rparr>))"
  using assms by (rule calculate_paths_degenerate)

theorem C4_degenerate_case_witness:
  "0 < snd (0::real, 500::real) - snd (0::real, 0::real)
   \<and> \<bar>fst (0::real, 500::real) - fst (0::real, 0::real)\<bar> < 1
   \<and> (\<exists>sd. calculate_paths (\<lambda>f x0. Inl RuntimeError) (0, 0) (0, 500) = Inr (Some sd)
          \<and> line_L sd = 500 \<and> line_a sd = G \<and> line_t sd = sqrt (1000 / G)
          \<and> cycloid_t sd = line_t sd \<and> cycloid_r sd = PosInf \<and> cycloid_theta_b sd = 0
          \<and> cycloid_points sd = [(0, 0), (0, 500)] \<and> line_points sd = [(0, 0), (0, 500)])"
proof -
  have s: "sqrt (250000::real) = 500"
    using real_sqrt_abs [of "500::real"] by simp
  show ?thesis
    using C4_degenerate_case [where A = "(0, 0)" and B = "(0, 500)"
        and fsolve = "\<lambda>f x0. Inl RuntimeError"]
    by (simp add: Let_def s)
qed

text \<open>
  Claim C5. On a solution of the solver, a sample at an elapsed time \<open>t\<close> that has reached
  a path's travel time puts that path's bead exactly on B with its arrived flag set, for
  each path on its own; and from then on every further update, with any frame times,
  leaves the flag set and the bead on B.
\<close>

theorem C5_arrival_pins_to_B:
  assumes "calculate_paths fsolve A B = Inr (Some sd)"
  shows "\<exists>v'. sample_at sd A B t = Inr v'
           \<and> (line_t sd \<le> t \<longrightarrow>
                line_finished v' \<and> pos_line_world v' = B
                \<and> (\<forall>dts. \<exists>v''. run_updates sd A B dts v' = Inr v''
                       \<and> line_finished v'' \<and> pos_line_world v'' = B))
           \<and> (cycloid_t sd \<le> t \<longrightarrow>
                cycloid_finished v' \<and> pos_cycloid_world v' = B
                \<and> (\<forall>dts. \<exists>v''. run_updates sd A B dts v' = Inr v''
                       \<and> cycloid_finished v'' \<and> pos_cycloid_world v'' = B))"
proof -
  have L: "line_L sd \<noteq> 0" using solution_shape(5) [OF assms] by simp
  have dy: "key_dy sd \<noteq> 0" using solution_shape(3) [OF assms] by simp
  have r: "\<And>r. cycloid_r sd = Fin r \<Longrightarrow> 0 < r" by (rule solution_shape(8) [OF assms])
  let ?v = "start_simulation A"
  obtain v' where s: "simulation_update sd A B t ?v = Inr v'"
    using simulation_update_total [OF L dy r] by blast
  have st: "state ?v = simulate" "\<not> line_finished ?v" "\<not> cycloid_finished ?v" "sim_time ?v = 0"
    by (simp_all add: start_simulation_def)
  have line: "line_finished v' \<and> pos_line_world v' = B
                \<and> (\<forall>dts. \<exists>v''. run_updates sd A B dts v' = Inr v''
                       \<and> line_finished v'' \<and> pos_line_world v'' = B)"
    if t: "line_t sd \<le> t"
  proof -
    have a: "line_finished v' \<and> pos_line_world v' = B"
      using simulation_update_steps(3) [OF s] st t by simp
    have "\<exists>v''. run_updates sd A B dts v' = Inr v'' \<and> line_finished v'' \<and> pos_line_world v'' = B"
      for dts
    proof -
      obtain v'' where run: "run_updates sd A B dts v' = Inr v''"
        using run_updates_total [OF L dy r] by blast
      then show ?thesis using run_updates_line_pinned [OF run] a by auto
    qed
    then show ?thesis using a by blast
  qed
  have cyc: "cycloid_finished v' \<and> pos_cycloid_world v' = B
                \<and> (\<forall>dts. \<exists>v''. run_updates sd A B dts v' = Inr v''
                       \<and> cycloid_finished v'' \<and> pos_cycloid_world v'' = B)"
    if t: "cycloid_t sd \<le> t"
  proof -
    have a: "cycloid_finished v' \<and> pos_cycloid_world v' = B"
      using simulation_update_steps(4) [OF s] st t by simp
    have "\<exists>v''. run_updates sd A B dts v' = Inr v''
            \<and> cycloid_finished v'' \<and> pos_cycloid_world v'' = B" for dts
    proof -
      obtain v'' where run: "run_updates sd A B dts v' = Inr v''"
        using run_updates_total [OF L dy r] by blast
      then show ?thesis using run_updates_cycloid_pinned [OF run] a by auto
    qed
    then show ?thesis using a by blast
  qed
  show ?thesis
    unfolding sample_at_def using s line cyc by blast
qed

theorem C5_arrival_pins_to_B_witness:
  "\<exists>sd v' v''. calculate_paths (\<lambda>f x0. Inr pi) (0, 0) (pi, 2) = Inr (Some sd)
      \<and> line_t sd \<le> 1 \<and> cycloid_t sd \<le> 1
      \<and> sample_at sd (0, 0) (pi, 2) 1 = Inr v'
      \<and> line_finished v' \<and> pos_line_world v' = (pi, 2)
      \<and> cycloid_finished v' \<and> pos_cycloid_world v' = (pi, 2)
      \<and> run_updates sd (0, 0) (pi, 2) [1, 1000000, - 7] v' = Inr v''
      \<and> line_finished v'' \<and> pos_line_world v'' = (pi, 2)
      \<and> cycloid_finished v'' \<and> pos_cycloid_world v'' = (pi, 2)"
proof -
  obtain sd where sd: "calculate_paths (\<lambda>f x0. Inr pi) (0, 0) (pi, 2) = Inr (Some sd)"
    and lt: "line_t sd = sqrt (2 * sqrt (pi\<^sup>2 + 4) / (G * 2 / sqrt (pi\<^sup>2 + 4)))"
    and ct: "cycloid_t sd = pi * sqrt (1 / G)"
    using example_general_solution by simp
  have l1: "line_t sd \<le> 1" unfolding lt by (rule example_general_times(1))
  have c1: "cycloid_t sd \<le> 1" unfolding ct by (rule example_general_times(2))
  from C5_arrival_pins_to_B [OF sd, of 1] l1 c1
  obtain v' where s: "sample_at sd (0, 0) (pi, 2) 1 = Inr v'"
    and a: "line_finished v'" "pos_line_world v' = (pi, 2)"
      "cycloid_finished v'" "pos_cycloid_world v' = (pi, 2)"
    and rl: "\<forall>dts. \<exists>v''. run_updates sd (0, 0) (pi, 2) dts v' = Inr v''
               \<and> line_finished v'' \<and> pos_line_world v'' = (pi, 2)"
    and rc: "\<forall>dts. \<exists>v''. run_updates sd (0, 0) (pi, 2) dts v' = Inr v''
               \<and> cycloid_finished v'' \<and> pos_cycloid_world v'' = (pi, 2)"
    by auto
  from rl obtain v'' where r1: "run_updates sd (0, 0) (pi, 2) [1, 1000000, - 7] v' = Inr v''"
    and b: "line_finished v''" "pos_line_world v'' = (pi, 2)"
    by blast
  from rc r1 have c: "cycloid_finished v''" "pos_cycloid_world v'' = (pi, 2)"
    by (metis sum.inject(2))+
  show ?thesis using sd l1 c1 s a r1 b c by blast
qed



text \<open>
  Claim C7. When the solver returns a solution for (A, B), it returns one for (A, B') too,
  B' being the mirror image of B in the vertical line through A; the two solutions have
  the same straight and cycloid travel times, the same radius and the same angle, and
  the cycloid polyline of the second is the mirror image of the first, point by point.
\<close>

theorem C7_mirror_symmetry:
  assumes "calculate_paths fsolve A B = Inr (Some sd)"
  shows "\<exists>sd'. calculate_paths fsolve A (2 * fst A - fst B, snd B) = Inr (Some sd')
           \<and> line_t sd' = line_t sd \<and> cycloid_t sd' = cycloid_t sd
           \<and> cycloid_r sd' = cycloid_r sd \<and> cycloid_theta_b sd' = cycloid_theta_b sd
           \<and> cycloid_points sd' = map (\<lambda>p. (2 * fst A - fst p, snd p)) (cycloid_points sd)"
proof -
  let ?B' = "(2 * fst A - fst B, snd B)"
  let ?dx = "fst B - fst A" and ?dy = "snd B - snd A"
  note c = calculate_paths_Some [OF assms]
  then have below: "0 < ?dy" by simp
  have dx': "fst ?B' - fst A = - ?dx" by simp
  have dy': "snd ?B' - snd A = ?dy" by simp
  have below': "0 < snd ?B' - snd A" using below by simp
  have A: "(2 * fst A - fst A, snd A) = A" by (simp add: prod_eq_iff)
  from c consider
    (degenerate) "\<bar>?dx\<bar> < 1"
      "sd = (let dx = ?dx; dy = ?dy; L = sqrt (dx\<^sup>2 + dy\<^sup>2)
             in \<lparr> key_A = A, key_B = B, key_dx = dx, key_dy = dy,
                  line_L = L, line_a = G, line_t = sqrt (2 * L / G),
                  line_points = [A, B], cycloid_r = PosInf,
                  cycloid_theta_b = 0, cycloid_t = sqrt (2 * L / G),
                  cycloid_points = [A, B] \<rparr>)"
  | (general) th where "1 \<le> \<bar>?dx\<bar>"
      "fsolve (cycloid_equation (\<bar>?dx\<bar> / ?dy)) pi = Inr th" "cos th \<noteq> 1"
      "sd = (let dx = ?dx; dy = ?dy; L = sqrt (dx\<^sup>2 + dy\<^sup>2); r = dy / (1 - cos th)
             in \<lparr> key_A = A, key_B = B, key_dx = dx, key_dy = dy,
                  line_L = L, line_a = G * dy / L,
                  line_t = sqrt (2 * L / (G * dy / L)),
                  line_points = [A, B], cycloid_r = Fin r,
                  cycloid_theta_b = th, cycloid_t = th * sqrt (r / G),
                  cycloid_points = sample_cycloid A dx r th \<rparr>)"
    by blast
  then show ?thesis
  proof cases
    case degenerate
    have small: "\<bar>fst ?B' - fst A\<bar> < 1" unfolding dx' using degenerate(1) by simp
    show ?thesis
      unfolding calculate_paths_degenerate [OF below' small] degenerate(2) dx' dy'
      using A by (simp add: Let_def power2_commute [of "fst A" "fst B"])
  next
    case general
    have big: "1 \<le> \<bar>fst ?B' - fst A\<bar>" unfolding dx' using general(1) by simp
    have f: "fsolve (cycloid_equation (\<bar>fst ?B' - fst A\<bar> / (snd ?B' - snd A))) pi = Inr th"
      using general(2) by (simp add: abs_minus_commute [of "fst A" "fst B"])
    have m: "sample_cycloid A (fst A - fst B) r th
               = map (\<lambda>p. (2 * fst A - fst p, snd p)) (sample_cycloid A ?dx r th)" for r
      using sample_cycloid_mirror [of A ?dx r th] by simp
    show ?thesis
      unfolding calculate_paths_general [where fsolve = fsolve, OF below' big f general(3)]
        general(4) dx' dy'
      by (simp add: Let_def m power2_commute [of "fst A" "fst B"]
            abs_minus_commute [of "fst A" "fst B"])
  qed
qed

theorem C7_mirror_symmetry_witness:
  "\<exists>sd sd'. calculate_paths (\<lambda>f x0. Inr pi) (0, 0) (pi, 2) = Inr (Some sd)
      \<and> calculate_paths (\<lambda>f x0. Inr pi) (0, 0) (- pi, 2) = Inr (Some sd')
      \<and> line_t sd' = line_t sd \<and> cycloid_t sd' = cycloid_t sd
      \<and> cycloid_r sd' = cycloid_r sd \<and> cycloid_theta_b sd' = cycloid_theta_b sd
      \<and> cycloid_points sd' = map (\<lambda>p. (- fst p, snd p)) (cycloid_points sd)"
proof -
  obtain sd where sd: "calculate_paths (\<lambda>f x0. Inr pi) (0, 0) (pi, 2) = Inr (Some sd)"
    using example_general_solution by simp
  from C7_mirror_symmetry [OF sd]
  obtain sd' where "calculate_paths (\<lambda>f x0. Inr pi) (0, 0) (- pi, 2) = Inr (Some sd')"
    and "line_t sd' = line_t sd" and "cycloid_t sd' = cycloid_t sd"
    and "cycloid_r sd' = cycloid_r sd" and "cycloid_theta_b sd' = cycloid_theta_b sd"
    and "cycloid_points sd' = map (\<lambda>p. (- fst p, snd p)) (cycloid_points sd)"
    by auto
  then show ?thesis using sd by blast
qed

text \<open>
  Claim C8. In the general case the cycloid polyline has exactly 100 points; point \<open>i\<close> is
  the sample at the parameter \<open>i theta / 99\<close> (uniform steps from 0 to \<open>theta\<close>), with
  \<open>x = Ax + sgn dx r (t - sin t)\<close> and \<open>y = Ay + r (1 - cos t)\<close>. Its first point is A, and
  its last point is B when \<open>theta\<close> satisfies the equation of the cycloid.
\<close>

theorem C8_cycloid_polyline:
  assumes "0 < snd B - snd A" and "1 \<le> \<bar>fst B - fst A\<bar>"
    and "fsolve (\<lambda>th. (th - sin th) - (\<bar>fst B - fst A\<bar> / (snd B - snd A)) * (1 - cos th)) pi
           = Inr theta"
    and "cos theta \<noteq> 1"
  shows "\<exists>sd r. calculate_paths fsolve A B = Inr (Some sd) \<and> cycloid_r sd = Fin r
           \<and> length (cycloid_points sd) = 100
           \<and> (\<forall>i < 100. cycloid_points sd ! i =
                 (fst A + sgn (fst B - fst A) * r
                            * (real i * (theta / 99) - sin (real i * (theta / 99))),
                  snd A + r * (1 - cos (real i * (theta / 99)))))
           \<and> hd (cycloid_points sd) = A
           \<and> (theta - sin theta = (\<bar>fst B - fst A\<bar> / (snd B - snd A)) * (1 - cos theta)
                \<longrightarrow> last (cycloid_points sd) = B)"
proof -
  let ?dx = "fst B - fst A" and ?dy = "snd B - snd A"
  let ?r = "?dy / (1 - cos theta)"
  have eq: "fsolve (cycloid_equation (\<bar>?dx\<bar> / ?dy)) pi = Inr theta"
    using assms(3) by (simp add: cycloid_equation_def)
  have last: "last (sample_cycloid A ?dx ?r theta) = B"
    if root: "theta - sin theta = (\<bar>?dx\<bar> / ?dy) * (1 - cos theta)"
  proof -
    have "fst A + sgn ?dx * ?r * (theta - sin theta) = fst B"
      and "snd A + ?r * (1 - cos theta) = snd B"
      using cycloid_end_point [OF assms(1) assms(4) root] by simp_all
    then show ?thesis by (simp add: last_sample_cycloid prod_eq_iff)
  qed
  show ?thesis
    unfolding calculate_paths_general [where fsolve = fsolve, OF assms(1) assms(2) eq assms(4)]
    using last
    by (simp add: Let_def length_sample_cycloid nth_sample_cycloid hd_sample_cycloid)
qed

theorem C8_cycloid_polyline_witness:
  "\<exists>sd. calculate_paths (\<lambda>f x0. Inr pi) (0, 0) (pi, 2) = Inr (Some sd)
      \<and> cycloid_r sd = Fin 1
      \<and> length (cycloid_points sd) = 100
      \<and> cycloid_points sd ! 33 = (pi / 3 - sin (pi / 3), 1 - cos (pi / 3))
      \<and> hd (cycloid_points sd) = (0, 0)
      \<and> last (cycloid_points sd) = (pi, 2)"
proof -
  have p: "1 \<le> \<bar>fst (pi, 2::real) - fst (0::real, 0::real)\<bar>"
    using pi_ge_two by simp
  have z: "(0::real) < pi" by simp
  from C8_cycloid_polyline [where A = "(0, 0)" and B = "(pi, 2)"
        and fsolve = "\<lambda>f x0. Inr pi" and theta = pi] p
  obtain sd r where sd: "calculate_paths (\<lambda>f x0. Inr pi) (0, 0) (pi, 2) = Inr (Some sd)"
    and r: "cycloid_r sd = Fin r"
    and len: "length (cycloid_points sd) = 100"
    and nth: "\<forall>i < 100. cycloid_points sd ! i =
                 (fst (0::real, 0::real) + sgn (fst (pi, 2::real) - fst (0::real, 0::real)) * r
                            * (real i * (pi / 99) - sin (real i * (pi / 99))),
                  snd (0::real, 0::real) + r * (1 - cos (real i * (pi / 99))))"
    and hd: "hd (cycloid_points sd) = (0, 0)"
    and last: "last (cycloid_points sd) = (pi, 2)"
    by auto
  have r1: "r = 1" using sd r example_general_solution by auto
  have "cycloid_points sd ! 33 =
          (fst (0::real, 0::real) + sgn (fst (pi, 2::real) - fst (0::real, 0::real)) * r
                            * (real 33 * (pi / 99) - sin (real 33 * (pi / 99))),
           snd (0::real, 0::real) + r * (1 - cos (real 33 * (pi / 99))))"
    using nth by (simp del: of_nat_numeral)
  then have "cycloid_points sd ! 33 = (pi / 3 - sin (pi / 3), 1 - cos (pi / 3))"
    using r1 z by (simp add: sgn_real_def)
  then show ?thesis using sd r r1 len hd last by blast
qed

text \<open>
  Claim C9. In the general case (\<open>dy > 0\<close>, \<open>|dx| \<ge> 1\<close>), when the angle the root finder
  returns satisfies the equation \<open>theta - sin theta = (|dx| / dy) (1 - cos theta)\<close> and the
  radius is defined, the solver returns a solution whose cycloid time is at most its
  straight time, and both times are strictly positive.
\<close>

theorem C9_cycloid_not_slower:
  assumes "0 < snd B - snd A" and "1 \<le> \<bar>fst B - fst A\<bar>"
    and "fsolve (\<lambda>th. (th - sin th) - (\<bar>fst B - fst A\<bar> / (snd B - snd A)) * (1 - cos th)) pi
           = Inr theta"
    and "cos theta \<noteq> 1"
    and "theta - sin theta = (\<bar>fst B - fst A\<bar> / (snd B - snd A)) * (1 - cos theta)"
  shows "\<exists>sd. calculate_paths fsolve A B = Inr (Some sd)
           \<and> 0 < cycloid_t sd \<and> cycloid_t sd \<le> line_t sd \<and> 0 < line_t sd"
proof -
  let ?dx = "fst B - fst A" and ?dy = "snd B - snd A"
  have eq: "fsolve (cycloid_equation (\<bar>?dx\<bar> / ?dy)) pi = Inr theta"
    using assms(3) by (simp add: cycloid_equation_def)
  have dx: "?dx \<noteq> 0" using assms(2) by auto
  have ratio: "0 < \<bar>?dx\<bar> / ?dy" using assms(1) dx by simp
  have th: "0 < theta" using ratio assms(4) assms(5) by (rule cycloid_root_positive)
  have k: "0 < 1 - cos theta" using assms(4) by (rule one_minus_cos_pos)
  have "0 < ?dy / (1 - cos theta) / G" using assms(1) k G_pos by simp
  then have "0 < sqrt (?dy / (1 - cos theta) / G)" by simp
  then have pos: "0 < theta * sqrt (?dy / (1 - cos theta) / G)" using th by simp
  have le: "theta * sqrt (?dy / (1 - cos theta) / G)
              \<le> sqrt (2 * sqrt (?dx\<^sup>2 + ?dy\<^sup>2) / (G * ?dy / sqrt (?dx\<^sup>2 + ?dy\<^sup>2)))"
    using assms(1) dx assms(4) assms(5) by (rule brachistochrone_times)
  have lpos: "0 < sqrt (2 * sqrt (?dx\<^sup>2 + ?dy\<^sup>2) / (G * ?dy / sqrt (?dx\<^sup>2 + ?dy\<^sup>2)))"
    using pos le by linarith
  show ?thesis
    unfolding calculate_paths_general [where fsolve = fsolve, OF assms(1) assms(2) eq assms(4)]
    using pos le lpos by (simp add: Let_def)
qed

theorem C9_cycloid_not_slower_witness:
  "0 < snd (pi, 2::real) - snd (0::real, 0::real)
   \<and> 1 \<le> \<bar>fst (pi, 2::real) - fst (0::real, 0::real)\<bar>
   \<and> cos pi \<noteq> (1::real)
   \<and> pi - sin pi = (\<bar>fst (pi, 2::real) - fst (0::real, 0::real)\<bar>
                      / (snd (pi, 2::real) - snd (0::real, 0::real))) * (1 - cos pi)
   \<and> (\<exists>sd. calculate_paths (\<lambda>f x0. Inr pi) (0, 0) (pi, 2) = Inr (Some sd)
          \<and> 0 < cycloid_t sd \<and> cycloid_t sd \<le> line_t sd \<and> 0 < line_t sd)"
proof -
  have p: "1 \<le> \<bar>fst (pi, 2::real) - fst (0::real, 0::real)\<bar>"
    using pi_ge_two by simp
  have r: "pi - sin pi = (\<bar>fst (pi, 2::real) - fst (0::real, 0::real)\<bar>
                      / (snd (pi, 2::real) - snd (0::real, 0::real))) * (1 - cos pi)"
    by simp
  have c: "cos pi \<noteq> (1::real)" by simp
  have d: "0 < snd (pi, 2::real) - snd (0::real, 0::real)" by simp
  have f: "(\<lambda>f x0. Inr pi)
             (\<lambda>th. (th - sin th) - (\<bar>fst (pi, 2::real) - fst (0::real, 0::real)\<bar>
                      / (snd (pi, 2::real) - snd (0::real, 0::real))) * (1 - cos th)) pi
           = (Inr pi :: py_exc + real)"
    by simp
  show ?thesis
    using C9_cycloid_not_slower [where A = "(0, 0)" and B = "(pi, 2)"
        and fsolve = "\<lambda>f x0. Inr pi" and theta = pi, OF d p f c r] d p c r
    by blast
qed

text \<open>
  Claim C10. On a solution of the solver, a sample at a negative time \<open>t\<close> with \<open>|t|\<close> below
  the straight travel time gives the straight bead the position it has at \<open>- t\<close>: the point
  \<open>A + frac (dx, dy)\<close> with \<open>frac = 0.5 line_a t\<^sup>2 / L\<close> strictly between 0 and 1, which is not A;
  the bead is not marked arrived. In the degenerate case the same holds for the cycloid bead.
\<close>

theorem C10_negative_time_is_even:
  assumes "calculate_paths fsolve A B = Inr (Some sd)" and "t < 0" and "- t < line_t sd"
  shows "\<exists>v1 v2 frac. sample_at sd A B t = Inr v1 \<and> sample_at sd A B (- t) = Inr v2
           \<and> frac = 0.5 * line_a sd * t\<^sup>2 / line_L sd \<and> 0 < frac \<and> frac < 1
           \<and> pos_line_world v1 = (fst A + frac * key_dx sd, snd A + frac * key_dy sd)
           \<and> pos_line_world v2 = pos_line_world v1
           \<and> pos_line_world v1 \<noteq> A \<and> \<not> line_finished v1
           \<and> (cycloid_r sd = PosInf \<longrightarrow>
                pos_cycloid_world v2 = pos_cycloid_world v1
                \<and> pos_cycloid_world v1 \<noteq> A \<and> \<not> cycloid_finished v1)"
proof -
  have L: "line_L sd \<noteq> 0" and Lp: "0 < line_L sd" using solution_shape(5) [OF assms(1)] by simp_all
  have dy: "key_dy sd \<noteq> 0" and dyp: "0 < key_dy sd"
    using solution_shape(3) [OF assms(1)] by simp_all
  have r: "\<And>r. cycloid_r sd = Fin r \<Longrightarrow> 0 < r" by (rule solution_shape(8) [OF assms(1)])
  have a: "0 < line_a sd" by (rule solution_shape(6) [OF assms(1)])
  have lt: "line_t sd = sqrt (2 * line_L sd / line_a sd)" by (rule solution_shape(7) [OF assms(1)])
  define frac where "frac = 0.5 * line_a sd * t\<^sup>2 / line_L sd"
  have "\<bar>t\<bar> < sqrt (2 * line_L sd / line_a sd)" using assms(2,3) lt by simp
  from line_frac_bounds [OF a Lp _ this] assms(2)
  have f0: "0 < frac" and f1: "frac < 1" by (simp_all add: frac_def)
  have tn: "t < line_t sd" and tp: "- t < line_t sd" using assms(2,3) by simp_all
  let ?s = "start_simulation A"
  have nf: "\<not> line_finished (?s\<lparr>sim_time := t\<rparr>)" "\<not> line_finished (?s\<lparr>sim_time := - t\<rparr>)"
    "\<not> cycloid_finished (?s\<lparr>sim_time := t\<rparr>)" "\<not> cycloid_finished (?s\<lparr>sim_time := - t\<rparr>)"
    by (simp_all add: start_simulation_def)
  from sample_at_positions [OF L dy r, of A B t]
  obtain a2 a3 v1 where
    al: "update_line_bead sd A B (?s\<lparr>sim_time := t\<rparr>) = Inr a2"
    and ac: "update_cycloid_bead sd A B a2 = Inr a3"
    and s1: "sample_at sd A B t = Inr v1"
    and p1: "pos_line_world v1 = pos_line_world a2" "line_finished v1 = line_finished a2"
      "pos_cycloid_world v1 = pos_cycloid_world a3" "cycloid_finished v1 = cycloid_finished a3"
    by blast
  from sample_at_positions [OF L dy r, of A B "- t"]
  obtain b2 b3 v2 where
    bl: "update_line_bead sd A B (?s\<lparr>sim_time := - t\<rparr>) = Inr b2"
    and bc: "update_cycloid_bead sd A B b2 = Inr b3"
    and s2: "sample_at sd A B (- t) = Inr v2"
    and p2: "pos_line_world v2 = pos_line_world b2" "line_finished v2 = line_finished b2"
      "pos_cycloid_world v2 = pos_cycloid_world b3" "cycloid_finished v2 = cycloid_finished b3"
    by blast
  have a2: "a2 = ?s\<lparr>sim_time := t,
              pos_line_world := (fst A + frac * key_dx sd, snd A + frac * key_dy sd)\<rparr>"
    using al update_line_bead_in_flight [OF nf(1) _ L, of A B] tn by (simp add: frac_def)
  have b2: "b2 = ?s\<lparr>sim_time := - t,
              pos_line_world := (fst A + frac * key_dx sd, snd A + frac * key_dy sd)\<rparr>"
    using bl update_line_bead_in_flight [OF nf(2) _ L, of A B] tp by (simp add: frac_def)
  have line1: "pos_line_world v1 = (fst A + frac * key_dx sd, snd A + frac * key_dy sd)"
    using p1(1) a2 by simp
  have line2: "pos_line_world v2 = pos_line_world v1" using p2(1) b2 line1 by simp
  have "snd A + frac * key_dy sd \<noteq> snd A" using f0 dyp by simp
  moreover have "snd (pos_line_world v1) = snd A + frac * key_dy sd" using line1 by simp
  ultimately have neq: "pos_line_world v1 \<noteq> A" by auto
  have nfin: "\<not> line_finished v1" using p1(2) a2 by (simp add: start_simulation_def)
  have cyc: "pos_cycloid_world v2 = pos_cycloid_world v1
             \<and> pos_cycloid_world v1 \<noteq> A \<and> \<not> cycloid_finished v1"
    if inf: "cycloid_r sd = PosInf"
  proof -
    have ct: "cycloid_t sd = line_t sd" using solution_shape(9) [OF assms(1) inf] by simp
    have na: "\<not> cycloid_finished a2" "sim_time a2 = t" using a2 by (simp_all add: start_simulation_def)
    have nb: "\<not> cycloid_finished b2" "sim_time b2 = - t" using b2 by (simp_all add: start_simulation_def)
    have a3: "a3 = a2\<lparr>pos_cycloid_world := (fst A, snd A + 0.5 * G * t\<^sup>2 / key_dy sd * key_dy sd)\<rparr>"
      using ac update_cycloid_bead_degenerate_in_flight [OF na(1) _ dy inf, of A B] tn ct na(2)
      by simp
    have b3: "b3 = b2\<lparr>pos_cycloid_world := (fst A, snd A + 0.5 * G * t\<^sup>2 / key_dy sd * key_dy sd)\<rparr>"
      using bc update_cycloid_bead_degenerate_in_flight [OF nb(1) _ dy inf, of A B] tp ct nb(2)
      by simp
    have "G \<noteq> 0" and "t \<noteq> 0" using G_pos assms(2) by simp_all
    then have "snd A + 0.5 * G * t\<^sup>2 / key_dy sd * key_dy sd \<noteq> snd A" using dy by simp
    moreover have "snd (pos_cycloid_world v1) = snd A + 0.5 * G * t\<^sup>2 / key_dy sd * key_dy sd"
      using p1(3) a3 by simp
    ultimately have "pos_cycloid_world v1 \<noteq> A" by auto
    moreover have "pos_cycloid_world v2 = pos_cycloid_world v1" using p1(3) p2(3) a3 b3 by simp
    moreover have "\<not> cycloid_finished v1" using p1(4) a3 na(1) by simp
    ultimately show ?thesis by simp
  qed
  show ?thesis
    using s1 s2 f0 f1 line1 line2 neq nfin cyc frac_def by blast
qed

theorem C10_negative_time_is_even_witness:
  "\<exists>sd v1 v2. calculate_paths (\<lambda>f x0. Inl RuntimeError) (0, 0) (0, 500) = Inr (Some sd)
      \<and> cycloid_r sd = PosInf \<and> - (1 / 2) < (0::real) \<and> - (- (1 / 2)) < line_t sd
      \<and> sample_at sd (0, 0) (0, 500) (- (1 / 2)) = Inr v1
      \<and> sample_at sd (0, 0) (0, 500) (- (- (1 / 2))) = Inr v2
      \<and> pos_line_world v2 = pos_line_world v1 \<and> pos_line_world v1 \<noteq> (0, 0)
      \<and> \<not> line_finished v1
      \<and> pos_cycloid_world v2 = pos_cycloid_world v1 \<and> pos_cycloid_world v1 \<noteq> (0, 0)
      \<and> \<not> cycloid_finished v1"
proof -
  have s: "sqrt (250000::real) = 500"
    using real_sqrt_abs [of "500::real"] by simp
  obtain sd where sd: "calculate_paths (\<lambda>f x0. Inl RuntimeError) (0, 0) (0, 500) = Inr (Some sd)"
    and lt: "line_t sd = sqrt (1000 / G)" and inf: "cycloid_r sd = PosInf"
    using calculate_paths_degenerate [where A = "(0, 0)" and B = "(0, 500)"
        and fsolve = "\<lambda>f x0. Inl RuntimeError"]
    by (simp add: Let_def s)
  have "(1 / 2 :: real) < sqrt (1000 / G)"
    by (rule real_less_rsqrt) (simp add: G_def power2_eq_square)
  then have t: "- (- (1 / 2)) < line_t sd" using lt by simp
  have n: "- (1 / 2) < (0::real)" by simp
  from C10_negative_time_is_even [OF sd n t] inf
  obtain v1 v2 where "sample_at sd (0, 0) (0, 500) (- (1 / 2)) = Inr v1"
    and "sample_at sd (0, 0) (0, 500) (- (- (1 / 2))) = Inr v2"
    and "pos_line_world v2 = pos_line_world v1" and "pos_line_world v1 \<noteq> (0, 0)"
    and "\<not> line_finished v1"
    and "pos_cycloid_world v2 = pos_cycloid_world v1" and "pos_cycloid_world v1 \<noteq> (0, 0)"
    and "\<not> cycloid_finished v1"
    by auto
  then show ?thesis using sd inf n t by blast
qed

end
